theory Spec2Isabelle
  imports Complex_Main "HOL-Library.AList"
begin

unbundle bit_operations_syntax

section \<open>Errors\<close>

text \<open>
  Every exception the modelled Python can raise is a value. \<open>KeyError\<close>, \<open>IndexError\<close>,
  \<open>UnboundLocalError\<close> and \<open>ValueError\<close> are raised by the Python interpreter or by
  pandas on the client; \<open>EEException\<close> is the failure of a request evaluated by the
  remote Earth Engine service (for example the selection of a band an image lacks).
\<close>

datatype error =
    KeyError string
  | IndexError
  | UnboundLocalError string
  | ValueError
  | EEException

section \<open>Dataset registry (app.py, lines 25--59)\<close>

text \<open>
  Each entry of the dictionary \<open>datasets\<close> is itself a dictionary. The keys
  \<open>'cloud_mask_band'\<close> and \<open>'cloud_mask_value'\<close> are absent from the Sentinel-2 entry:
  an absent key is \<open>None\<close>, and reading it raises \<open>KeyError\<close>.
\<close>

record profile =
  collection :: string
  cloud_mask_band :: "string option"
  cloud_mask_value :: "int option"
  bands :: "string list"
  year_range :: "int list"

definition datasets :: "(string \<times> profile) list" where
  "datasets =
    [(''Sentinel-2'',
       \<lparr>collection = ''COPERNICUS/S2_SR_HARMONIZED'',
        cloud_mask_band = None,
        cloud_mask_value = None,
        bands = [''B4'', ''B3'', ''B2'', ''B8'', ''B5''],
        year_range = [2019, 2023]\<rparr>),
     (''Landsat-5'',
       \<lparr>collection = ''LANDSAT/LT05/C02/T1_L2'',
        cloud_mask_band = Some ''QA_PIXEL'',
        cloud_mask_value = Some (push_bit 1 1 OR push_bit 3 1 OR push_bit 4 1),
        bands = [''SR_B3'', ''SR_B2'', ''SR_B1'', ''SR_B4'', ''SR_B3''],
        year_range = [1985, 2011]\<rparr>),
     (''Landsat-7'',
       \<lparr>collection = ''LANDSAT/LE07/C02/T1_L2'',
        cloud_mask_band = Some ''QA_PIXEL'',
        cloud_mask_value = Some (push_bit 1 1 OR push_bit 3 1 OR push_bit 4 1 OR push_bit 5 1),
        bands = [''SR_B3'', ''SR_B2'', ''SR_B1'', ''SR_B4'', ''SR_B3''],
        year_range = [2000, 2023]\<rparr>),
     (''Landsat-8'',
       \<lparr>collection = ''LANDSAT/LC08/C02/T1_L2'',
        cloud_mask_band = Some ''QA_PIXEL'',
        cloud_mask_value =
          Some (push_bit 1 1 OR push_bit 2 1 OR push_bit 3 1 OR push_bit 4 1 OR push_bit 5 1),
        bands = [''SR_B4'', ''SR_B3'', ''SR_B2'', ''SR_B5'', ''SR_B4''],
        year_range = [2014, 2023]\<rparr>),
     (''MODIS'',
       \<lparr>collection = ''MODIS/006/MOD09GA'',
        cloud_mask_band = Some ''state_1km'',
        cloud_mask_value = Some (push_bit 10 1 OR push_bit 11 1),
        bands = [''sur_refl_b01'', ''sur_refl_b04'', ''sur_refl_b03'', ''sur_refl_b02'',
                 ''sur_refl_b01''],
        year_range = [2001, 2022]\<rparr>)]"

text \<open>Python's \<open>d[k]\<close> on a dictionary and \<open>xs[i]\<close> on a list, with their exceptions.\<close>

definition getitem :: "(string \<times> 'a) list \<Rightarrow> string \<Rightarrow> error + 'a" where
  "getitem d k = (case map_of d k of None \<Rightarrow> Inl (KeyError k) | Some v \<Rightarrow> Inr v)"

definition getfield :: "string \<Rightarrow> 'a option \<Rightarrow> error + 'a" where
  "getfield k field = (case field of None \<Rightarrow> Inl (KeyError k) | Some v \<Rightarrow> Inr v)"

definition getindex :: "'a list \<Rightarrow> nat \<Rightarrow> error + 'a" where
  "getindex xs i = (if i < length xs then Inr (xs ! i) else Inl IndexError)"

section \<open>Scenes and the Earth Engine operations the code calls\<close>

text \<open>
  A scene is one acquisition: a footprint (the set of ground locations it covers), the
  acquisition time \<open>system:time_start\<close>, its metadata properties, and its bands. A band
  is a raster: a value for every location where the pixel is valid, \<open>None\<close> where it is
  masked (no-data).

  The acquisition time is kept as year, month, day and millisecond of the day (UTC);
  Earth Engine compares milliseconds since the epoch, and on calendar dates that order is
  the lexicographic order on these four components.
\<close>

type_synonym timestamp = "int \<times> nat \<times> nat \<times> nat"

type_synonym 'p raster = "'p \<Rightarrow> int option"

record 'p scene =
  footprint :: "'p set"
  time_start :: timestamp
  properties :: "string \<rightharpoonup> real"
  scene_bands :: "string \<rightharpoonup> 'p raster"

fun ts_less :: "timestamp \<Rightarrow> timestamp \<Rightarrow> bool" where
  "ts_less (y1, m1, d1, t1) (y2, m2, d2, t2) =
     (y1 < y2 \<or> (y1 = y2 \<and> (m1 < m2 \<or> (m1 = m2 \<and> (d1 < d2 \<or> (d1 = d2 \<and> t1 < t2))))))"

text \<open>
  The date string \<open>f'{year}-MM-DD'\<close>, read by Earth Engine as midnight UTC of that day.
\<close>

definition date_string :: "int \<Rightarrow> nat \<Rightarrow> nat \<Rightarrow> timestamp" where
  "date_string year month day = (year, month, day, 0)"

text \<open>
  \<open>ImageCollection.filterBounds(region)\<close> keeps the scenes whose footprint intersects the
  region. \<open>ImageCollection.filterDate(start, end)\<close> keeps the scenes with
  \<open>start \<le> system:time_start < end\<close>: the start is inclusive and the end is exclusive.
  \<open>Filter.lt(name, value)\<close> keeps the scenes that carry the property with a smaller value.
\<close>

definition filterBounds :: "'p scene list \<Rightarrow> 'p set \<Rightarrow> 'p scene list" where
  "filterBounds coll region = filter (\<lambda>s. footprint s \<inter> region \<noteq> {}) coll"

definition filterDate :: "'p scene list \<Rightarrow> timestamp \<Rightarrow> timestamp \<Rightarrow> 'p scene list" where
  "filterDate coll start end =
     filter (\<lambda>s. \<not> ts_less (time_start s) start \<and> ts_less (time_start s) end) coll"

definition filter_lt :: "string \<Rightarrow> real \<Rightarrow> 'p scene \<Rightarrow> bool" where
  "filter_lt name v s = (case properties s name of None \<Rightarrow> False | Some x \<Rightarrow> x < v)"

text \<open>
  \<open>Image.select(band)\<close>, \<open>Image.bitwiseAnd(value)\<close>, \<open>Image.eq(value)\<close> and
  \<open>Image.updateMask(mask)\<close>. A pixel of the updated image is valid where it was valid
  before and the mask image is valid and non-zero.
\<close>

definition select :: "'p scene \<Rightarrow> string \<Rightarrow> error + 'p raster" where
  "select img band =
     (case scene_bands img band of None \<Rightarrow> Inl EEException | Some r \<Rightarrow> Inr r)"

definition bitwiseAnd :: "'p raster \<Rightarrow> int \<Rightarrow> 'p raster" where
  "bitwiseAnd r v = (\<lambda>p. map_option (\<lambda>x. x AND v) (r p))"

definition eq_value :: "'p raster \<Rightarrow> int \<Rightarrow> 'p raster" where
  "eq_value r v = (\<lambda>p. map_option (\<lambda>x. if x = v then 1 else 0) (r p))"

definition mask_raster :: "'p raster \<Rightarrow> 'p raster \<Rightarrow> 'p raster" where
  "mask_raster r m = (\<lambda>p. case m p of None \<Rightarrow> None | Some x \<Rightarrow> if x \<noteq> 0 then r p else None)"

definition updateMask :: "'p scene \<Rightarrow> 'p raster \<Rightarrow> 'p scene" where
  "updateMask img m =
     img\<lparr>scene_bands := (\<lambda>b. map_option (\<lambda>r. mask_raster r m) (scene_bands img b))\<rparr>"

section \<open>Cloud masking and scene selection (app.py, lines 77--96)\<close>

definition mask_clouds :: "'p scene \<Rightarrow> string \<Rightarrow> error + 'p scene" where
  "mask_clouds img dataset =
     (case getitem datasets dataset of Inl e \<Rightarrow> Inl e | Inr d \<Rightarrow>
     (case getfield ''cloud_mask_band'' (cloud_mask_band d) of Inl e \<Rightarrow> Inl e | Inr band \<Rightarrow>
     (case getfield ''cloud_mask_value'' (cloud_mask_value d) of Inl e \<Rightarrow> Inl e | Inr v \<Rightarrow>
     (case select img band of Inl e \<Rightarrow> Inl e | Inr qa \<Rightarrow>
        Inr (updateMask img (eq_value (bitwiseAnd qa v) 0))))))"

text \<open>\<open>ImageCollection.map(f)\<close>: the first failing image fails the collection.\<close>

fun map_images :: "('a \<Rightarrow> error + 'b) \<Rightarrow> 'a list \<Rightarrow> error + 'b list" where
  "map_images f [] = Inr []"
| "map_images f (x # xs) =
     (case f x of Inl e \<Rightarrow> Inl e | Inr y \<Rightarrow>
       (case map_images f xs of Inl e \<Rightarrow> Inl e | Inr ys \<Rightarrow> Inr (y # ys)))"

text \<open>
  The catalogue \<open>cat\<close> gives the scenes of each collection identifier:
  \<open>ee.ImageCollection(id)\<close>.
\<close>

definition get_filtered_images ::
  "(string \<Rightarrow> 'p scene list) \<Rightarrow> string \<Rightarrow> int \<Rightarrow> 'p set \<Rightarrow> error + 'p scene list" where
  "get_filtered_images cat satellite year region =
     (case getitem datasets satellite of Inl e \<Rightarrow> Inl e | Inr dataset \<Rightarrow>
      let coll = cat (collection dataset);
          filtered_images =
            filterDate (filterBounds coll region) (date_string year 1 1) (date_string year 12 31)
      in if satellite = ''Sentinel-2''
         then Inr (filter (filter_lt ''SNOW_ICE_PERCENTAGE'' 20)
                     (filter (filter_lt ''CLOUDY_PIXEL_PERCENTAGE'' 20) filtered_images))
         else map_images (\<lambda>img. mask_clouds img satellite) filtered_images)"

section \<open>Index registry (app.py, lines 62--73)\<close>

text \<open>
  The formulas are strings that Earth Engine parses; each is written here as the
  expression tree the string denotes, with the usual precedence of \<open>*\<close> and \<open>/\<close> over
  \<open>+\<close> and \<open>-\<close> and association to the left.
\<close>

datatype expr =
    Num real
  | Var string
  | Add expr expr
  | Sub expr expr
  | Mul expr expr
  | Div expr expr
  | Sqrt expr
  | Pow expr expr

definition indexes :: "(string \<times> expr) list" where
  "indexes =
    [(''NDVI'', Div (Sub (Var ''NIR'') (Var ''RED'')) (Add (Var ''NIR'') (Var ''RED''))),
     (''EVI'',
        Mul (Num 2.5)
          (Div (Sub (Var ''NIR'') (Var ''RED''))
               (Add (Sub (Add (Var ''NIR'') (Mul (Num 6) (Var ''RED'')))
                         (Mul (Num 7.5) (Var ''BLUE'')))
                    (Num 1)))),
     (''SAVI'',
        Mul (Div (Sub (Var ''NIR'') (Var ''RED''))
                 (Add (Add (Var ''NIR'') (Var ''RED'')) (Var ''L'')))
            (Add (Num 1) (Var ''L''))),
     (''NDWI'', Div (Sub (Var ''GREEN'') (Var ''NIR'')) (Add (Var ''GREEN'') (Var ''NIR''))),
     (''GNDVI'', Div (Sub (Var ''NIR'') (Var ''GREEN'')) (Add (Var ''NIR'') (Var ''GREEN''))),
     (''NDRE'',
        Div (Sub (Var ''NIR'') (Var ''RED_EDGE'')) (Add (Var ''NIR'') (Var ''RED_EDGE''))),
     (''MSAVI2'',
        Div (Sub (Add (Mul (Num 2) (Var ''NIR'')) (Num 1))
                 (Sqrt (Sub (Pow (Add (Mul (Num 2) (Var ''NIR'')) (Num 1)) (Num 2))
                            (Mul (Num 8) (Sub (Var ''NIR'') (Var ''RED''))))))
            (Num 2)),
     (''ARVI'',
        Div (Sub (Var ''NIR'') (Sub (Mul (Num 2) (Var ''RED'')) (Var ''BLUE'')))
            (Add (Var ''NIR'') (Sub (Mul (Num 2) (Var ''RED'')) (Var ''BLUE'')))),
     (''PRI'', Div (Sub (Var ''RED'') (Var ''BLUE'')) (Add (Var ''RED'') (Var ''BLUE''))),
     (''WBI'', Div (Var ''NIR'') (Var ''GREEN''))]"

section \<open>The remote service\<close>

text \<open>
  A composite image maps band names to rasters over a value type \<open>'v\<close> of the service
  (a number or no-data). What the service computes is not in the repository: the median
  reducer, clipping, the arithmetic of \<open>Image.expression\<close> on pixel values and the four
  reducers of \<open>reduceRegion\<close> are taken as they come, as the fields of an engine. The
  statistics have a type \<open>'s\<close> of their own (a number, or null when no pixel is valid).
\<close>

type_synonym ('p, 'v) image = "string \<rightharpoonup> ('p \<Rightarrow> 'v)"

record ('p, 'v, 's) engine =
  ee_median :: "'p scene list \<Rightarrow> ('p, 'v) image"
  ee_clip :: "('p, 'v) image \<Rightarrow> 'p set \<Rightarrow> ('p, 'v) image"
  ee_const :: "real \<Rightarrow> 'v"
  ee_add :: "'v \<Rightarrow> 'v \<Rightarrow> 'v"
  ee_sub :: "'v \<Rightarrow> 'v \<Rightarrow> 'v"
  ee_mul :: "'v \<Rightarrow> 'v \<Rightarrow> 'v"
  ee_div :: "'v \<Rightarrow> 'v \<Rightarrow> 'v"
  ee_sqrt :: "'v \<Rightarrow> 'v"
  ee_pow :: "'v \<Rightarrow> 'v \<Rightarrow> 'v"
  ee_mean :: "('p \<Rightarrow> 'v) \<Rightarrow> 'p set \<Rightarrow> 's"
  ee_min :: "('p \<Rightarrow> 'v) \<Rightarrow> 'p set \<Rightarrow> 's"
  ee_max :: "('p \<Rightarrow> 'v) \<Rightarrow> 'p set \<Rightarrow> 's"
  ee_stdDev :: "('p \<Rightarrow> 'v) \<Rightarrow> 'p set \<Rightarrow> 's"

definition select_band :: "('p, 'v) image \<Rightarrow> string \<Rightarrow> error + ('p \<Rightarrow> 'v)" where
  "select_band img band = (case img band of None \<Rightarrow> Inl EEException | Some r \<Rightarrow> Inr r)"

definition pointwise ::
  "('v \<Rightarrow> 'v \<Rightarrow> 'v) \<Rightarrow> error + ('p \<Rightarrow> 'v) \<Rightarrow> error + ('p \<Rightarrow> 'v) \<Rightarrow> error + ('p \<Rightarrow> 'v)" where
  "pointwise f a b =
     (case a of Inl e \<Rightarrow> Inl e | Inr x \<Rightarrow>
       (case b of Inl e \<Rightarrow> Inl e | Inr y \<Rightarrow> Inr (\<lambda>p. f (x p) (y p))))"

text \<open>
  \<open>Image.expression(formula, map)\<close>: every name of the formula is looked up in the map,
  and the operators are applied pixel by pixel.
\<close>

fun expression ::
  "('p, 'v, 's) engine \<Rightarrow> expr \<Rightarrow> (string \<rightharpoonup> ('p \<Rightarrow> 'v)) \<Rightarrow> error + ('p \<Rightarrow> 'v)" where
  "expression eng (Num c) env = Inr (\<lambda>p. ee_const eng c)"
| "expression eng (Var x) env = (case env x of None \<Rightarrow> Inl EEException | Some r \<Rightarrow> Inr r)"
| "expression eng (Add a b) env = pointwise (ee_add eng) (expression eng a env) (expression eng b env)"
| "expression eng (Sub a b) env = pointwise (ee_sub eng) (expression eng a env) (expression eng b env)"
| "expression eng (Mul a b) env = pointwise (ee_mul eng) (expression eng a env) (expression eng b env)"
| "expression eng (Div a b) env = pointwise (ee_div eng) (expression eng a env) (expression eng b env)"
| "expression eng (Sqrt a) env =
     (case expression eng a env of Inl e \<Rightarrow> Inl e | Inr x \<Rightarrow> Inr (\<lambda>p. ee_sqrt eng (x p)))"
| "expression eng (Pow a b) env = pointwise (ee_pow eng) (expression eng a env) (expression eng b env)"

definition rename :: "('p \<Rightarrow> 'v) \<Rightarrow> string \<Rightarrow> ('p, 'v) image" where
  "rename r name = [name \<mapsto> r]"

section \<open>Index evaluation (app.py, lines 122--155)\<close>

text \<open>
  Earth Engine objects are built lazily on the client and evaluated by the service when
  \<open>getInfo\<close> is called (line 153). So the exceptions of the client come first, in the order
  of the source: \<open>KeyError\<close> for an unknown satellite (raised inside
  \<open>get_filtered_images\<close>), \<open>IndexError\<close> for a missing band position, \<open>KeyError\<close> for an
  unknown index. Only then can the evaluation fail in the service: a scene without its
  quality band, or a composite without one of the five bands (the median of an empty
  collection has no bands).
\<close>

text \<open>
  Lines 123--124 (the same two lines open \<open>add_rgb_layer_to_map\<close>, lines 101--102): the
  median is taken of the images \<open>get_filtered_images\<close> returns.
\<close>

definition median_composite ::
  "('p, 'v, 's) engine \<Rightarrow> (string \<Rightarrow> 'p scene list) \<Rightarrow> string \<Rightarrow> int \<Rightarrow> 'p set
     \<Rightarrow> error + ('p, 'v) image" where
  "median_composite eng cat satellite year region =
     (case get_filtered_images cat satellite year region of
        Inl e \<Rightarrow> Inl e
      | Inr filtered_images \<Rightarrow> Inr (ee_median eng filtered_images))"

definition calc_index ::
  "('p, 'v, 's) engine \<Rightarrow> (string \<Rightarrow> 'p scene list) \<Rightarrow> string \<Rightarrow> string \<Rightarrow> int \<Rightarrow> 'p set \<Rightarrow> bool
     \<Rightarrow> error + (('p, 'v) image \<times> (string \<times> 's) list)" where
  "calc_index eng cat satellite index_name year region clip =
     (case getitem datasets satellite of Inl e \<Rightarrow> Inl e | Inr d \<Rightarrow>
     (case getindex (bands d) 0 of Inl e \<Rightarrow> Inl e | Inr red_band \<Rightarrow>
     (case getindex (bands d) 1 of Inl e \<Rightarrow> Inl e | Inr blue_band \<Rightarrow>
     (case getindex (bands d) 2 of Inl e \<Rightarrow> Inl e | Inr green_band \<Rightarrow>
     (case getindex (bands d) 3 of Inl e \<Rightarrow> Inl e | Inr nir_band \<Rightarrow>
     (case getindex (bands d) 4 of Inl e \<Rightarrow> Inl e | Inr red_edge_band \<Rightarrow>
     (case getitem indexes index_name of Inl e \<Rightarrow> Inl e | Inr formula \<Rightarrow>
     (case median_composite eng cat satellite year region of Inl e \<Rightarrow> Inl e
      | Inr median_image \<Rightarrow>
     (let img = (if clip then ee_clip eng median_image region else median_image)
      in
     (case select_band img red_band of Inl e \<Rightarrow> Inl e | Inr red \<Rightarrow>
     (case select_band img blue_band of Inl e \<Rightarrow> Inl e | Inr blue \<Rightarrow>
     (case select_band img green_band of Inl e \<Rightarrow> Inl e | Inr green \<Rightarrow>
     (case select_band img nir_band of Inl e \<Rightarrow> Inl e | Inr nir \<Rightarrow>
     (case select_band img red_edge_band of Inl e \<Rightarrow> Inl e | Inr red_edge \<Rightarrow>
     (case expression eng formula
             [''RED'' \<mapsto> red, ''BLUE'' \<mapsto> blue, ''GREEN'' \<mapsto> green, ''NIR'' \<mapsto> nir,
              ''RED_EDGE'' \<mapsto> red_edge, ''L'' \<mapsto> (\<lambda>p. ee_const eng 0.5)] of
        Inl e \<Rightarrow> Inl e
      | Inr r \<Rightarrow>
          Inr (rename r index_name,
               [(index_name @ ''_mean'', ee_mean eng r region),
                (index_name @ ''_min'', ee_min eng r region),
                (index_name @ ''_max'', ee_max eng r region),
                (index_name @ ''_stdDev'', ee_stdDev eng r region)]))))))))))))))))"

section \<open>Yearly series (pages/graph.py, lines 19--42)\<close>

text \<open>Python's \<open>str.lower\<close> on ASCII text.\<close>

definition lower_char :: "char \<Rightarrow> char" where
  "lower_char c =
     (case map_of (zip ''ABCDEFGHIJKLMNOPQRSTUVWXYZ'' ''abcdefghijklmnopqrstuvwxyz'') c of
        None \<Rightarrow> c
      | Some l \<Rightarrow> l)"

definition lower :: "string \<Rightarrow> string" where
  "lower s = map lower_char s"

text \<open>
  The table the function returns is a pandas DataFrame: an ordered list of named columns.
  Assigning a column replaces the column of that name or appends a new one, and raises
  \<open>ValueError\<close> when the number of values is not the number of rows.
\<close>

datatype 's cell = YearCell int | YearText int | StatCell 's

type_synonym 's dataframe = "(string \<times> 's cell list) list"

definition nrows :: "'s dataframe \<Rightarrow> nat" where
  "nrows df = (case df of [] \<Rightarrow> 0 | (name, col) # rest \<Rightarrow> length col)"

definition setitem_column :: "'s dataframe \<Rightarrow> string \<Rightarrow> 's cell list \<Rightarrow> error + 's dataframe" where
  "setitem_column df name col =
     (if length col \<noteq> nrows df then Inl ValueError else Inr (AList.update name col df))"

text \<open>
  One call of the index evaluator, as the caller sees it: satellite, index, year, region
  and the \<open>clip\<close> flag.
\<close>

type_synonym 'r call = "string \<times> string \<times> int \<times> 'r \<times> bool"

text \<open>
  The inner loop (lines 25--26): for every requested field, the statistic
  \<open>stats[f"{index_name}_{data.lower()}"]\<close> is appended to the list of that field.
\<close>

fun record_stats ::
  "string \<Rightarrow> (string \<times> 's) list \<Rightarrow> string list \<Rightarrow> (string \<rightharpoonup> 's list)
     \<Rightarrow> error + (string \<rightharpoonup> 's list)" where
  "record_stats index_name stats [] index_values_dict = Inr index_values_dict"
| "record_stats index_name stats (data # rest) index_values_dict =
     (case index_values_dict data of None \<Rightarrow> Inl (KeyError data) | Some col \<Rightarrow>
       (case getitem stats (index_name @ ''_'' @ lower data) of Inl e \<Rightarrow> Inl e | Inr v \<Rightarrow>
          record_stats index_name stats rest (index_values_dict(data \<mapsto> col @ [v]))))"

text \<open>
  The outer loop (lines 23--26). The index evaluator is the parameter \<open>calc\<close>; the second
  component of the result lists the calls made to it, in order.
\<close>

fun collect_years ::
  "(string \<Rightarrow> string \<Rightarrow> int \<Rightarrow> 'r \<Rightarrow> bool \<Rightarrow> error + ('i \<times> (string \<times> 's) list))
     \<Rightarrow> string \<Rightarrow> string \<Rightarrow> 'r \<Rightarrow> string list \<Rightarrow> int list \<Rightarrow> (string \<rightharpoonup> 's list)
     \<Rightarrow> (error + (string \<rightharpoonup> 's list)) \<times> 'r call list" where
  "collect_years calc satellite index_name region graph_data [] index_values_dict =
     (Inr index_values_dict, [])"
| "collect_years calc satellite index_name region graph_data (year # years) index_values_dict =
     (case calc satellite index_name year region False of
        Inl e \<Rightarrow> (Inl e, [(satellite, index_name, year, region, False)])
      | Inr (index_image, stats) \<Rightarrow>
         (case record_stats index_name stats graph_data index_values_dict of
            Inl e \<Rightarrow> (Inl e, [(satellite, index_name, year, region, False)])
          | Inr index_values_dict' \<Rightarrow>
             (case collect_years calc satellite index_name region graph_data years
                     index_values_dict' of
                (result, trace) \<Rightarrow>
                  (result, (satellite, index_name, year, region, False) # trace))))"

text \<open>Lines 28--30: the frame starts with the column \<open>Year\<close>; one column per field follows.\<close>

fun assign_columns ::
  "'s dataframe \<Rightarrow> (string \<rightharpoonup> 's list) \<Rightarrow> string list \<Rightarrow> error + 's dataframe" where
  "assign_columns df index_values_dict [] = Inr df"
| "assign_columns df index_values_dict (data # rest) =
     (case index_values_dict data of None \<Rightarrow> Inl (KeyError data) | Some col \<Rightarrow>
       (case setitem_column df data (map StatCell col) of Inl e \<Rightarrow> Inl e | Inr df' \<Rightarrow>
          assign_columns df' index_values_dict rest))"

text \<open>
  The function also draws the figure (lines 32--40), one line per field read back from
  the frame; the figure is presentation and is left out.
\<close>

definition plot_index_over_time ::
  "(string \<Rightarrow> string \<Rightarrow> int \<Rightarrow> 'r \<Rightarrow> bool \<Rightarrow> error + ('i \<times> (string \<times> 's) list))
     \<Rightarrow> string \<Rightarrow> string \<Rightarrow> int \<Rightarrow> int \<Rightarrow> 'r \<Rightarrow> string list
     \<Rightarrow> (error + 's dataframe) \<times> 'r call list" where
  "plot_index_over_time calc satellite index_name start_year end_year region graph_data =
     (let years = [start_year..end_year];
          index_values_dict = map_of (map (\<lambda>data. (data, [])) graph_data)
      in case collect_years calc satellite index_name region graph_data years
                index_values_dict of
           (Inl e, trace) \<Rightarrow> (Inl e, trace)
         | (Inr index_values_dict', trace) \<Rightarrow>
             (assign_columns [(''Year'', map YearCell years)] index_values_dict' graph_data,
              trace))"

section \<open>Region input (app.py, lines 168--224; pages/graph.py, lines 52--93)\<close>

text \<open>
  A location is a longitude and a latitude, a region is a set of locations, and the table
  read from a shapefile is the list of its features' geometries. Both pages build the
  point of interest with the same test (app.py line 180, graph.py line 64).
\<close>

type_synonym location = "real \<times> real"

type_synonym gdf = "location set list"

definition point_of_interest :: "real \<Rightarrow> real \<Rightarrow> location set option" where
  "point_of_interest long lat = (if long \<noteq> 0 \<and> lat \<noteq> 0 then Some {(long, lat)} else None)"

definition geopandas_to_ee :: "gdf \<Rightarrow> location set" where
  "geopandas_to_ee table = \<Union> (set table)"

definition endswith :: "string \<Rightarrow> string \<Rightarrow> bool" where
  "endswith s suffix =
     (length suffix \<le> length s \<and> drop (length s - length suffix) s = suffix)"

definition path_join :: "string \<Rightarrow> string \<Rightarrow> string" where
  "path_join dirpath file = dirpath @ ''/'' @ file"

text \<open>
  The extracted archive is what \<open>os.walk\<close> yields: the directories with their file names.
  The \<open>break\<close> leaves the inner loop only, so a later directory with a shapefile
  overrides an earlier one.
\<close>

fun find_shapefile :: "(string \<times> string list) list \<Rightarrow> string option \<Rightarrow> string option" where
  "find_shapefile [] shapefile_path = shapefile_path"
| "find_shapefile ((dirpath, files) # rest) shapefile_path =
     find_shapefile rest
       (case List.find (\<lambda>file. endswith file ''.shp'') files of
          None \<Rightarrow> shapefile_path
        | Some file \<Rightarrow> Some (path_join dirpath file))"

text \<open>
  What a page shows. The local variable \<open>gdf\<close> is assigned only when a shapefile was
  found; reading it unassigned raises \<open>UnboundLocalError\<close>. A joined path is never
  empty, so the test \<open>if shapefile_path\<close> is the test that one was found. \<open>read_file\<close>
  stands for \<open>geopandas.read_file\<close> on the extracted files.
\<close>

datatype 's shown =
    StError string
  | StImage gdf
  | StPyplot
  | StWrite "'s dataframe"

definition upload_block ::
  "bool \<Rightarrow> (string \<Rightarrow> gdf) \<Rightarrow> (string \<times> string list) list option
     \<Rightarrow> 's shown list \<times> (error + (gdf option \<times> location set option))" where
  "upload_block plots read_file uploaded_shp_file =
     (case uploaded_shp_file of
        None \<Rightarrow> ([], Inr (None, None))
      | Some archive \<Rightarrow>
         (let shapefile_path = find_shapefile archive None;
              gdf = (case shapefile_path of None \<Rightarrow> None | Some path \<Rightarrow> Some (read_file path));
              shown = (case gdf of
                         None \<Rightarrow> [StError ''Shapefile (.shp) not found in the uploaded zip file.'']
                       | Some table \<Rightarrow> if plots then [StImage table] else [])
          in case gdf of
               None \<Rightarrow> (shown, Inl (UnboundLocalError ''gdf''))
             | Some table \<Rightarrow>
                 (shown, Inr (gdf, if table \<noteq> [] then Some (geopandas_to_ee table) else None))))"

text \<open>
  The block of app.py (lines 188--224) plots the table it read; the block of graph.py
  (lines 72--93) does not.
\<close>

definition app_upload ::
  "(string \<Rightarrow> gdf) \<Rightarrow> (string \<times> string list) list option
     \<Rightarrow> 's shown list \<times> (error + (gdf option \<times> location set option))" where
  "app_upload = upload_block True"

definition graph_upload ::
  "(string \<Rightarrow> gdf) \<Rightarrow> (string \<times> string list) list option
     \<Rightarrow> 's shown list \<times> (error + (gdf option \<times> location set option))" where
  "graph_upload = upload_block False"

section \<open>The graph page (pages/graph.py, lines 45--128)\<close>

definition astype_str :: "'s dataframe \<Rightarrow> 's dataframe" where
  "astype_str df =
     map (\<lambda>(name, col).
            if name = ''Year''
            then (name, map (\<lambda>c. case c of YearCell y \<Rightarrow> YearText y | _ \<Rightarrow> c) col)
            else (name, col)) df"

text \<open>
  Lines 119--128. The result lists what the page shows, the calls made to the index
  evaluator, and the exception that ended the run, if any.
\<close>

definition series_section ::
  "(string \<Rightarrow> string \<Rightarrow> int \<Rightarrow> 'r \<Rightarrow> bool \<Rightarrow> error + ('i \<times> (string \<times> 's) list))
     \<Rightarrow> string \<Rightarrow> string \<Rightarrow> int \<Rightarrow> int \<Rightarrow> 'r option \<Rightarrow> string list option
     \<Rightarrow> 's shown list \<times> 'r call list \<times> error option" where
  "series_section calc sat index_name start_year end_year region graph_data =
     (if start_year \<le> end_year then
        (case graph_data of
           None \<Rightarrow> ([], [], None)
         | Some selected \<Rightarrow>
            (case region of
               None \<Rightarrow> ([], [], None)
             | Some r \<Rightarrow>
                (case plot_index_over_time calc sat index_name start_year end_year r selected of
                   (Inl e, trace) \<Rightarrow> ([], trace, Some e)
                 | (Inr df, trace) \<Rightarrow> ([StPyplot, StWrite (astype_str df)], trace, None))))
      else ([StError ''End year should be greater ar equal to start year.''], [], None))"

definition graph_main ::
  "(string \<Rightarrow> string \<Rightarrow> int \<Rightarrow> location set \<Rightarrow> bool \<Rightarrow> error + ('i \<times> (string \<times> 's) list))
     \<Rightarrow> (string \<Rightarrow> gdf) \<Rightarrow> real \<Rightarrow> real \<Rightarrow> (string \<times> string list) list option
     \<Rightarrow> string \<Rightarrow> int \<Rightarrow> int \<Rightarrow> string \<Rightarrow> string list option
     \<Rightarrow> 's shown list \<times> location set call list \<times> error option" where
  "graph_main calc read_file long lat uploaded_shp_file sat start_year end_year index_name
     graph_data =
     (let coordinates = point_of_interest long lat
      in case graph_upload read_file uploaded_shp_file of
           (shown, Inl e) \<Rightarrow> (shown, [], Some e)
         | (shown, Inr (gdf, roi)) \<Rightarrow>
            (let region = (if coordinates \<noteq> None \<and> roi = None then coordinates
                           else if roi \<noteq> None then roi
                           else None)
             in case series_section calc sat index_name start_year end_year region graph_data of
                  (shown', trace, raised) \<Rightarrow> (shown @ shown', trace, raised)))"

section \<open>The index formula, pixel by pixel\<close>

text \<open>
  The binding of the roles as the specification words it, to compare \<open>calc_index\<close> with:
  RED is the band at position 0 of the profile, BLUE at position 1, GREEN at position 2,
  NIR at position 3, RED\_EDGE at position 4, and \<open>L\<close> is the constant 0.5. The value of a
  role at a location is the value of that band of the composite there.
\<close>

definition spec_role_position :: "string \<rightharpoonup> nat" where
  "spec_role_position =
     [''RED'' \<mapsto> 0, ''BLUE'' \<mapsto> 1, ''GREEN'' \<mapsto> 2, ''NIR'' \<mapsto> 3, ''RED_EDGE'' \<mapsto> 4]"

definition spec_role_binding ::
  "('p, 'v, 's) engine \<Rightarrow> profile \<Rightarrow> ('p, 'v) image \<Rightarrow> 'p \<Rightarrow> string \<rightharpoonup> 'v" where
  "spec_role_binding eng d img p name =
     (if name = ''L'' then Some (ee_const eng 0.5)
      else case spec_role_position name of
             None \<Rightarrow> None
           | Some k \<Rightarrow>
               if k < length (bands d)
               then map_option (\<lambda>r. r p) (img (bands d ! k))
               else None)"

text \<open>The formula evaluated at one location, under a valuation of its names.\<close>

definition both :: "('v \<Rightarrow> 'v \<Rightarrow> 'v) \<Rightarrow> 'v option \<Rightarrow> 'v option \<Rightarrow> 'v option" where
  "both f a b =
     (case a of None \<Rightarrow> None | Some x \<Rightarrow> (case b of None \<Rightarrow> None | Some y \<Rightarrow> Some (f x y)))"

fun spec_pixel_value :: "('p, 'v, 's) engine \<Rightarrow> (string \<rightharpoonup> 'v) \<Rightarrow> expr \<Rightarrow> 'v option" where
  "spec_pixel_value eng val (Num c) = Some (ee_const eng c)"
| "spec_pixel_value eng val (Var x) = val x"
| "spec_pixel_value eng val (Add a b) = both (ee_add eng) (spec_pixel_value eng val a) (spec_pixel_value eng val b)"
| "spec_pixel_value eng val (Sub a b) = both (ee_sub eng) (spec_pixel_value eng val a) (spec_pixel_value eng val b)"
| "spec_pixel_value eng val (Mul a b) = both (ee_mul eng) (spec_pixel_value eng val a) (spec_pixel_value eng val b)"
| "spec_pixel_value eng val (Div a b) = both (ee_div eng) (spec_pixel_value eng val a) (spec_pixel_value eng val b)"
| "spec_pixel_value eng val (Sqrt a) = map_option (ee_sqrt eng) (spec_pixel_value eng val a)"
| "spec_pixel_value eng val (Pow a b) = both (ee_pow eng) (spec_pixel_value eng val a) (spec_pixel_value eng val b)"

section \<open>A reference engine\<close>

text \<open>
  Modelled from the spec: the geospatial compute service, which is not in the repository.
  Locations are natural numbers and a pixel value is a real number or no-data. The
  composite is the median of the valid pixels of each band (spec, section 3); clipping
  keeps the pixels of the region (4.4); the expression is evaluated with standard
  arithmetic, no-data is passed on and a division by zero gives a no-data pixel instead
  of an exception (4.5 and 6(b)); the zonal statistics range over the valid pixels of the
  region, and are null when there is none (4.5 and section 8).
\<close>

definition median_of :: "int list \<Rightarrow> real option" where
  "median_of xs =
     (let s = sort xs; n = length s
      in if n = 0 then None
         else if odd n then Some (real_of_int (s ! (n div 2)))
         else Some ((real_of_int (s ! (n div 2 - 1)) + real_of_int (s ! (n div 2))) / 2))"

definition reference_median :: "nat scene list \<Rightarrow> (nat, real option) image" where
  "reference_median scenes =
     (case scenes of
        [] \<Rightarrow> Map.empty
      | first # rest \<Rightarrow>
          (\<lambda>b. case scene_bands first b of
                 None \<Rightarrow> None
               | Some r0 \<Rightarrow>
                   Some (\<lambda>p. median_of
                           (List.map_filter
                              (\<lambda>s. case scene_bands s b of None \<Rightarrow> None | Some r \<Rightarrow> r p)
                              scenes))))"

definition reference_clip :: "(nat, real option) image \<Rightarrow> nat set \<Rightarrow> (nat, real option) image" where
  "reference_clip img region =
     (\<lambda>b. map_option (\<lambda>r p. if p \<in> region then r p else None) (img b))"

definition valid_values :: "(nat \<Rightarrow> real option) \<Rightarrow> nat set \<Rightarrow> real list" where
  "valid_values r region = List.map_filter r (sorted_list_of_set region)"

definition mean_of :: "real list \<Rightarrow> real option" where
  "mean_of xs = (if xs = [] then None else Some (sum_list xs / real (length xs)))"

text \<open>
  Modelled from the spec: the engine of the compute service, assembled from the parts
  above; division is undefined (no-data) on a zero denominator, as section 6(b) has it.
\<close>

definition reference_engine :: "(nat, real option, real option) engine" where
  "reference_engine =
     \<lparr>ee_median = reference_median,
      ee_clip = reference_clip,
      ee_const = Some,
      ee_add = both (+),
      ee_sub = both (-),
      ee_mul = both (*),
      ee_div = (\<lambda>a b. if b = Some 0 then None else both (/) a b),
      ee_sqrt = (\<lambda>a. case a of None \<Rightarrow> None | Some x \<Rightarrow> if x < 0 then None else Some (sqrt x)),
      ee_pow = both (powr),
      ee_mean = (\<lambda>r region. mean_of (valid_values r region)),
      ee_min = (\<lambda>r region. let xs = valid_values r region
                            in if xs = [] then None else Some (Min (set xs))),
      ee_max = (\<lambda>r region. let xs = valid_values r region
                            in if xs = [] then None else Some (Max (set xs))),
      ee_stdDev = (\<lambda>r region.
         case mean_of (valid_values r region) of
           None \<Rightarrow> None
         | Some m \<Rightarrow> map_option sqrt (mean_of (map (\<lambda>x. (x - m)\<^sup>2) (valid_values r region))))\<rparr>"

section \<open>Days of a year\<close>

text \<open>
  The acquisition falls on a day of the year \<open>year\<close>, from the day \<open>from\<close> to the day
  \<open>until\<close> (each a month and a day of the month), both included, at any time of the day.
\<close>

definition acquired_between :: "int \<Rightarrow> nat \<times> nat \<Rightarrow> nat \<times> nat \<Rightarrow> timestamp \<Rightarrow> bool" where
  "acquired_between year from until ts =
     (case ts of (y, m, d, t) \<Rightarrow>
        y = year \<and>
        (fst from < m \<or> (fst from = m \<and> snd from \<le> d)) \<and>
        (m < fst until \<or> (m = fst until \<and> d \<le> snd until)))"

section \<open>Concrete inputs\<close>


text \<open>
  A Landsat-7 scene over locations 0 and 1: the quality value is 2 (bit 1) at location 0
  and 0 at location 1.
\<close>

definition landsat7_scene :: "nat scene" where
  "landsat7_scene =
     \<lparr>footprint = {0, 1}, time_start = (2020, 7, 1, 36000000), properties = Map.empty,
      scene_bands = [''QA_PIXEL'' \<mapsto> (\<lambda>p. if p = 0 then Some 2 else Some 0),
                     ''SR_B3'' \<mapsto> (\<lambda>p. Some 700)]\<rparr>"

text \<open>
  A Landsat-7 scene over location 0 with all its bands and a clear quality value: red
  (\<open>SR_B3\<close>) is 2 and near infrared (\<open>SR_B4\<close>) is 4.
\<close>

definition landsat7_bands_scene :: "nat scene" where
  "landsat7_bands_scene =
     \<lparr>footprint = {0}, time_start = (2020, 7, 1, 36000000), properties = Map.empty,
      scene_bands = [''QA_PIXEL'' \<mapsto> (\<lambda>p. Some 0),
                     ''SR_B1'' \<mapsto> (\<lambda>p. Some 1),
                     ''SR_B2'' \<mapsto> (\<lambda>p. Some 1),
                     ''SR_B3'' \<mapsto> (\<lambda>p. Some 2),
                     ''SR_B4'' \<mapsto> (\<lambda>p. Some 4)]\<rparr>"

text \<open>
  Two Landsat-8 scenes over location 0 with a clear quality value, acquired at 10:00 on
  31 December 2020 and at 10:00 on 30 December 2020.
\<close>

definition landsat8_december31_scene :: "nat scene" where
  "landsat8_december31_scene =
     \<lparr>footprint = {0}, time_start = (2020, 12, 31, 36000000), properties = Map.empty,
      scene_bands = [''QA_PIXEL'' \<mapsto> (\<lambda>p. Some 0), ''SR_B4'' \<mapsto> (\<lambda>p. Some 700)]\<rparr>"

definition landsat8_december30_scene :: "nat scene" where
  "landsat8_december30_scene =
     \<lparr>footprint = {0}, time_start = (2020, 12, 30, 36000000), properties = Map.empty,
      scene_bands = [''QA_PIXEL'' \<mapsto> (\<lambda>p. Some 0), ''SR_B4'' \<mapsto> (\<lambda>p. Some 700)]\<rparr>"


text \<open>
  An index evaluator that needs no service: the mean of a year is the year itself, the
  minimum 0, the maximum 1.
\<close>

definition yearly_calc ::
  "string \<Rightarrow> string \<Rightarrow> int \<Rightarrow> location set \<Rightarrow> bool \<Rightarrow> error + (unit \<times> (string \<times> real) list)" where
  "yearly_calc satellite index_name year region clip =
     Inr ((), [(index_name @ ''_mean'', real_of_int year), (index_name @ ''_min'', 0),
               (index_name @ ''_max'', 1), (index_name @ ''_stdDev'', 0)])"

text \<open>An index evaluator whose every request fails in the service.\<close>

definition failing_calc ::
  "string \<Rightarrow> string \<Rightarrow> int \<Rightarrow> location set \<Rightarrow> bool \<Rightarrow> error + (unit \<times> (string \<times> real) list)" where
  "failing_calc satellite index_name year region clip = Inl EEException"

section \<open>Registry lookups\<close>


lemma getitem_landsat5:
  "getitem datasets ''Landsat-5'' =
     Inr \<lparr>collection = ''LANDSAT/LT05/C02/T1_L2'', cloud_mask_band = Some ''QA_PIXEL'',
          cloud_mask_value = Some 26,
          bands = [''SR_B3'', ''SR_B2'', ''SR_B1'', ''SR_B4'', ''SR_B3''],
          year_range = [1985, 2011]\<rparr>"
  by (simp add: getitem_def datasets_def)

lemma getitem_landsat7:
  "getitem datasets ''Landsat-7'' =
     Inr \<lparr>collection = ''LANDSAT/LE07/C02/T1_L2'', cloud_mask_band = Some ''QA_PIXEL'',
          cloud_mask_value = Some 58,
          bands = [''SR_B3'', ''SR_B2'', ''SR_B1'', ''SR_B4'', ''SR_B3''],
          year_range = [2000, 2023]\<rparr>"
  by (simp add: getitem_def datasets_def)

lemma getitem_landsat8:
  "getitem datasets ''Landsat-8'' =
     Inr \<lparr>collection = ''LANDSAT/LC08/C02/T1_L2'', cloud_mask_band = Some ''QA_PIXEL'',
          cloud_mask_value = Some 62,
          bands = [''SR_B4'', ''SR_B3'', ''SR_B2'', ''SR_B5'', ''SR_B4''],
          year_range = [2014, 2023]\<rparr>"
  by (simp add: getitem_def datasets_def)

lemma getitem_modis:
  "getitem datasets ''MODIS'' =
     Inr \<lparr>collection = ''MODIS/006/MOD09GA'', cloud_mask_band = Some ''state_1km'',
          cloud_mask_value = Some 3072,
          bands = [''sur_refl_b01'', ''sur_refl_b04'', ''sur_refl_b03'', ''sur_refl_b02'',
                   ''sur_refl_b01''],
          year_range = [2001, 2022]\<rparr>"
  by (simp add: getitem_def datasets_def)

lemma masked_profile:
  assumes "satellite \<in> {''Landsat-5'', ''Landsat-7'', ''Landsat-8'', ''MODIS''}"
  shows "\<exists>d qb v. getitem datasets satellite = Inr d \<and> cloud_mask_band d = Some qb \<and>
           cloud_mask_value d = Some v \<and> satellite \<noteq> ''Sentinel-2'' \<and>
           (satellite = ''Landsat-7'' \<longrightarrow> v = 58)"
  using assms
  by (auto simp add: getitem_landsat5 getitem_landsat7 getitem_landsat8 getitem_modis)

lemma getitem_ndvi:
  "getitem indexes ''NDVI'' =
     Inr (Div (Sub (Var ''NIR'') (Var ''RED'')) (Add (Var ''NIR'') (Var ''RED'')))"
  by (simp add: getitem_def indexes_def)

lemma getitem_ndre:
  "getitem indexes ''NDRE'' =
     Inr (Div (Sub (Var ''NIR'') (Var ''RED_EDGE'')) (Add (Var ''NIR'') (Var ''RED_EDGE'')))"
  by (simp add: getitem_def indexes_def)

lemma getitem_Cons:
  "getitem ((k, v) # rest) k' = (if k' = k then Inr v else getitem rest k')"
  by (simp add: getitem_def)

lemma registered_bands:
  "getitem datasets satellite = Inr d \<Longrightarrow> length (bands d) = 5"
  by (auto simp add: getitem_def datasets_def split: if_splits)

lemma red_edge_repeats_red:
  assumes "satellite \<in> {''Landsat-5'', ''Landsat-7'', ''Landsat-8'', ''MODIS''}"
  shows "\<exists>d. getitem datasets satellite = Inr d \<and> bands d ! 4 = bands d ! 0"
  using assms by (auto simp add: getitem_def datasets_def)

section \<open>The point of interest\<close>

text \<open>
  C2, as amended. The point of interest is unset exactly when at least one of the two
  coordinates is zero; it is an active point region exactly when both are non-zero.
\<close>

theorem point_of_interest_unset_iff:
  "point_of_interest long lat = None \<longleftrightarrow> long = 0 \<or> lat = 0"
  by (simp add: point_of_interest_def)

text \<open>
  C2 as stated fails: longitude 0 with latitude 51.5 has exactly one zero coordinate and
  is unset all the same.
\<close>

theorem point_on_meridian_unset: "point_of_interest 0 51.5 = None"
  by (simp add: point_of_interest_def)

section \<open>Uploads without a usable shapefile\<close>

text \<open>
  C3. An archive whose only member is \<open>readme.txt\<close>: both pages show the error message
  and then raise \<open>UnboundLocalError\<close> at \<open>gdf.empty\<close>, so the run of \<open>main\<close> ends there.
\<close>

theorem upload_without_shapefile_raises:
  "app_upload read_file (Some [(''/tmp/tmpdir'', [''readme.txt''])]) =
     ([StError ''Shapefile (.shp) not found in the uploaded zip file.''],
      Inl (UnboundLocalError ''gdf'')) \<and>
   graph_upload read_file (Some [(''/tmp/tmpdir'', [''readme.txt''])]) =
     ([StError ''Shapefile (.shp) not found in the uploaded zip file.''],
      Inl (UnboundLocalError ''gdf''))"
  by (simp add: app_upload_def graph_upload_def upload_block_def endswith_def)

text \<open>
  A shapefile that reads as an empty table sets no region and shows no message: the
  graph page goes on with the point of interest, here for the year 2020.
\<close>

lemma upload_empty_table_silent:
  "graph_upload (\<lambda>path. []) (Some [(''/tmp/tmpdir'', [''area.shp''])]) =
     ([], Inr (Some [], None)) \<and>
   graph_main failing_calc (\<lambda>path. []) 30 50 (Some [(''/tmp/tmpdir'', [''area.shp''])])
       ''Landsat-8'' 2020 2020 ''NDVI'' (Some [''Mean'']) =
     ([], [(''Landsat-8'', ''NDVI'', 2020, {(30, 50)}, False)], Some EEException)"
  by (simp add: graph_main_def graph_upload_def upload_block_def endswith_def
      point_of_interest_def series_section_def plot_index_over_time_def failing_calc_def
      upto.simps)

section \<open>Sentinel-2 and the cloud mask\<close>



section \<open>The year range of the graph page\<close>

text \<open>
  C5. When the end year is before the start year, the page shows the range error and
  nothing else, and the index evaluator is not called: the list of calls is empty.
\<close>

theorem series_section_invalid_range:
  "end_year < start_year \<Longrightarrow>
   series_section calc sat index_name start_year end_year region graph_data =
     ([StError ''End year should be greater ar equal to start year.''], [], None)"
  by (simp add: series_section_def)

theorem series_section_invalid_range_witness:
  "(2016::int) < 2018 \<and>
   series_section failing_calc ''Landsat-8'' ''NDVI'' 2018 2016 (Some {(30, 50)})
       (Some [''Max'', ''Mean'', ''Min'']) =
     ([StError ''End year should be greater ar equal to start year.''], [], None)"
  using series_section_invalid_range [of 2016 2018 failing_calc "''Landsat-8''" "''NDVI''"
      "Some {(30, 50)}" "Some [''Max'', ''Mean'', ''Min'']"]
  by simp

section \<open>Images of a collection\<close>

lemma map_images_Inr_D:
  "map_images f xs = Inr ys \<Longrightarrow> list_all2 (\<lambda>x y. f x = Inr y) xs ys"
  by (induction xs arbitrary: ys) (auto split: sum.splits)

lemma map_images_total:
  "\<forall>x\<in>set xs. \<exists>y. f x = Inr y \<Longrightarrow>
   \<exists>ys. map_images f xs = Inr ys \<and> list_all2 (\<lambda>x y. f x = Inr y) xs ys"
  by (induction xs) auto

section \<open>The cloud mask, pixel by pixel\<close>

lemma mask_clouds_pixels:
  assumes d: "getitem datasets satellite = Inr d"
    and qb: "cloud_mask_band d = Some qb"
    and v: "cloud_mask_value d = Some v"
    and qa: "scene_bands img qb = Some qa"
  shows "\<exists>img'. mask_clouds img satellite = Inr img' \<and>
           footprint img' = footprint img \<and> time_start img' = time_start img \<and>
           properties img' = properties img \<and>
           (\<forall>b. scene_bands img' b =
                  map_option (\<lambda>r p. case qa p of None \<Rightarrow> None
                                      | Some q \<Rightarrow> if q AND v = 0 then r p else None)
                    (scene_bands img b))"
proof -
  have m: "mask_raster r (eq_value (bitwiseAnd qa v) 0) =
        (\<lambda>p. case qa p of None \<Rightarrow> None | Some q \<Rightarrow> if q AND v = 0 then r p else None)" for r
    by (rule ext) (simp add: mask_raster_def eq_value_def bitwiseAnd_def split: option.splits)
  show ?thesis
    using d qb v qa
    by (simp add: mask_clouds_def getfield_def select_def updateMask_def m)
qed

lemma median_composite_masked:
  assumes d: "getitem datasets satellite = Inr d"
    and ns: "satellite \<noteq> ''Sentinel-2''"
    and c: "median_composite eng cat satellite year region = Inr composite"
  shows "\<exists>masked. list_all2 (\<lambda>s m. mask_clouds s satellite = Inr m)
            (filterDate (filterBounds (cat (collection d)) region)
               (date_string year 1 1) (date_string year 12 31)) masked \<and>
          composite = ee_median eng masked"
  using c d ns
  by (auto simp add: median_composite_def get_filtered_images_def Let_def
      split: sum.splits dest: map_images_Inr_D)

lemma median_composite_returns:
  assumes d: "getitem datasets satellite = Inr d"
    and qb: "cloud_mask_band d = Some qb"
    and v: "cloud_mask_value d = Some v"
    and ns: "satellite \<noteq> ''Sentinel-2''"
    and qa: "\<forall>s\<in>set (filterDate (filterBounds (cat (collection d)) region)
                         (date_string year 1 1) (date_string year 12 31)).
               scene_bands s qb \<noteq> None"
  shows "\<exists>masked.
           list_all2 (\<lambda>s m. mask_clouds s satellite = Inr m)
             (filterDate (filterBounds (cat (collection d)) region)
                (date_string year 1 1) (date_string year 12 31)) masked \<and>
           median_composite eng cat satellite year region = Inr (ee_median eng masked)"
proof -
  let ?selected = "filterDate (filterBounds (cat (collection d)) region)
                (date_string year 1 1) (date_string year 12 31)"
  have "\<forall>s\<in>set ?selected. \<exists>m. mask_clouds s satellite = Inr m"
  proof
    fix s assume "s \<in> set ?selected"
    with qa obtain r where "scene_bands s qb = Some r" by blast
    from mask_clouds_pixels [OF d qb v this] show "\<exists>m. mask_clouds s satellite = Inr m"
      by blast
  qed
  from map_images_total [OF this] obtain masked where
    run: "map_images (\<lambda>img. mask_clouds img satellite) ?selected = Inr masked" and
    all2: "list_all2 (\<lambda>s m. mask_clouds s satellite = Inr m) ?selected masked"
    by blast
  have "median_composite eng cat satellite year region = Inr (ee_median eng masked)"
    using run ns by (simp add: median_composite_def get_filtered_images_def d Let_def)
  with all2 show ?thesis by blast
qed

text \<open>
  C7. For Landsat-5, Landsat-7, Landsat-8 and MODIS the profile has a quality band and a
  bitmask (58 for Landsat-7). Where a scene has its quality band, \<open>mask_clouds\<close> returns,
  and in every band a pixel keeps its value exactly when the quality value there bitwise
  AND the bitmask is zero; every other pixel becomes no-data. When every selected scene
  has its quality band, the compositor returns, and its composite is the median of the
  selected scenes after \<open>mask_clouds\<close>, one masked image for each scene and in their order:
  the mask is applied to every scene before the reducer sees it. And whenever the
  compositor returns, its composite is such a median.
\<close>

theorem cloud_mask_before_median:
  assumes "satellite \<in> {''Landsat-5'', ''Landsat-7'', ''Landsat-8'', ''MODIS''}"
  shows "\<exists>d qb v.
      getitem datasets satellite = Inr d \<and> cloud_mask_band d = Some qb \<and>
      cloud_mask_value d = Some v \<and>
      (satellite = ''Landsat-7'' \<longrightarrow> v = 58) \<and>
      (\<forall>(img :: 'p scene) qa. scene_bands img qb = Some qa \<longrightarrow>
         (\<exists>img'. mask_clouds img satellite = Inr img' \<and>
            (\<forall>b. scene_bands img' b =
                   map_option (\<lambda>r p. case qa p of None \<Rightarrow> None
                                       | Some q \<Rightarrow> if q AND v = 0 then r p else None)
                     (scene_bands img b)))) \<and>
      (\<forall>(eng :: ('p, 'v, 's) engine) cat year region.
         (\<forall>s\<in>set (filterDate (filterBounds (cat (collection d)) region)
                       (date_string year 1 1) (date_string year 12 31)).
             scene_bands s qb \<noteq> None) \<longrightarrow>
         (\<exists>masked.
            list_all2 (\<lambda>s m. mask_clouds s satellite = Inr m)
              (filterDate (filterBounds (cat (collection d)) region)
                 (date_string year 1 1) (date_string year 12 31)) masked \<and>
            median_composite eng cat satellite year region = Inr (ee_median eng masked))) \<and>
      (\<forall>(eng :: ('p, 'v, 's) engine) cat year region composite.
         median_composite eng cat satellite year region = Inr composite \<longrightarrow>
         (\<exists>masked.
            list_all2 (\<lambda>s m. mask_clouds s satellite = Inr m)
              (filterDate (filterBounds (cat (collection d)) region)
                 (date_string year 1 1) (date_string year 12 31)) masked \<and>
            composite = ee_median eng masked))"
proof -
  from masked_profile [OF assms] obtain d qb v where
    d: "getitem datasets satellite = Inr d" and qb: "cloud_mask_band d = Some qb" and
    v: "cloud_mask_value d = Some v" and ns: "satellite \<noteq> ''Sentinel-2''" and
    l7: "satellite = ''Landsat-7'' \<longrightarrow> v = 58"
    by blast
  have px: "\<forall>(img :: 'p scene) qa. scene_bands img qb = Some qa \<longrightarrow>
         (\<exists>img'. mask_clouds img satellite = Inr img' \<and>
            (\<forall>b. scene_bands img' b =
                   map_option (\<lambda>r p. case qa p of None \<Rightarrow> None
                                       | Some q \<Rightarrow> if q AND v = 0 then r p else None)
                     (scene_bands img b)))"
    using mask_clouds_pixels [OF d qb v] by blast
  have tot: "\<forall>(eng :: ('p, 'v, 's) engine) cat year region.
         (\<forall>s\<in>set (filterDate (filterBounds (cat (collection d)) region)
                       (date_string year 1 1) (date_string year 12 31)).
             scene_bands s qb \<noteq> None) \<longrightarrow>
         (\<exists>masked.
            list_all2 (\<lambda>s m. mask_clouds s satellite = Inr m)
              (filterDate (filterBounds (cat (collection d)) region)
                 (date_string year 1 1) (date_string year 12 31)) masked \<and>
            median_composite eng cat satellite year region = Inr (ee_median eng masked))"
    using median_composite_returns [OF d qb v ns] by blast
  have md: "\<forall>(eng :: ('p, 'v, 's) engine) cat year region composite.
         median_composite eng cat satellite year region = Inr composite \<longrightarrow>
         (\<exists>masked.
            list_all2 (\<lambda>s m. mask_clouds s satellite = Inr m)
              (filterDate (filterBounds (cat (collection d)) region)
                 (date_string year 1 1) (date_string year 12 31)) masked \<and>
            composite = ee_median eng masked)"
    using median_composite_masked [OF d ns] by blast
  show ?thesis
    using d qb v l7 px tot md
    by (intro exI [of _ d] exI [of _ qb] exI [of _ v] conjI) assumption+
qed

theorem cloud_mask_before_median_witness:
  "''Landsat-7'' \<in> {''Landsat-5'', ''Landsat-7'', ''Landsat-8'', ''MODIS''} \<and>
   (\<exists>img' r. mask_clouds landsat7_scene ''Landsat-7'' = Inr img' \<and>
      scene_bands img' ''SR_B3'' = Some r \<and> r 0 = None \<and> r 1 = Some 700) \<and>
   (\<exists>composite r.
      median_composite reference_engine (\<lambda>c. [landsat7_scene]) ''Landsat-7'' 2020 {0} =
        Inr composite \<and>
      composite ''SR_B3'' = Some r \<and> r 0 = None \<and> r 1 = Some 700)"
proof -
  have mem: "''Landsat-7'' \<in> {''Landsat-5'', ''Landsat-7'', ''Landsat-8'', ''MODIS''}"
    by simp
  from cloud_mask_before_median
    [OF mem, where ?'p = nat and ?'v = "real option" and ?'s = "real option"]
  obtain d qb v where
    d: "getitem datasets ''Landsat-7'' = Inr d" and qb: "cloud_mask_band d = Some qb" and
    v: "cloud_mask_value d = Some v" and
    px: "\<forall>(img :: nat scene) qa. scene_bands img qb = Some qa \<longrightarrow>
         (\<exists>img'. mask_clouds img ''Landsat-7'' = Inr img' \<and>
            (\<forall>b. scene_bands img' b =
                   map_option (\<lambda>r p. case qa p of None \<Rightarrow> None
                                       | Some q \<Rightarrow> if q AND v = 0 then r p else None)
                     (scene_bands img b)))" and
    tot: "\<forall>(eng :: (nat, real option, real option) engine) cat year region.
         (\<forall>s\<in>set (filterDate (filterBounds (cat (collection d)) region)
                       (date_string year 1 1) (date_string year 12 31)).
             scene_bands s qb \<noteq> None) \<longrightarrow>
         (\<exists>masked.
            list_all2 (\<lambda>s m. mask_clouds s ''Landsat-7'' = Inr m)
              (filterDate (filterBounds (cat (collection d)) region)
                 (date_string year 1 1) (date_string year 12 31)) masked \<and>
            median_composite eng cat ''Landsat-7'' year region = Inr (ee_median eng masked))"
    by blast
  from d qb v have qbv: "qb = ''QA_PIXEL''" "v = 58"
    by (auto simp add: getitem_landsat7)
  have qa: "scene_bands landsat7_scene ''QA_PIXEL'' =
      Some (\<lambda>p. if p = 0 then Some 2 else Some 0)"
    by (simp add: landsat7_scene_def)
  from px [unfolded qbv, rule_format, OF qa] obtain img' where
    m: "mask_clouds landsat7_scene ''Landsat-7'' = Inr img'" and
    b: "\<forall>b. scene_bands img' b =
           map_option (\<lambda>r p. case (if p = (0::nat) then Some 2 else Some 0) of None \<Rightarrow> None
                               | Some q \<Rightarrow> if q AND (58::int) = 0 then r p else None)
             (scene_bands landsat7_scene b)"
    by blast
  from b have red: "scene_bands img' ''SR_B3'' =
      Some (\<lambda>p. case (if p = (0::nat) then Some 2 else Some 0) of None \<Rightarrow> None
                  | Some q \<Rightarrow> if q AND (58::int) = 0 then Some 700 else None)"
    by (simp add: landsat7_scene_def)
  have selected: "filterDate (filterBounds ((\<lambda>c. [landsat7_scene]) (collection d)) {0})
      (date_string 2020 1 1) (date_string 2020 12 31) = [landsat7_scene]"
    by (simp add: filterDate_def filterBounds_def date_string_def landsat7_scene_def)
  have "\<forall>s\<in>set [landsat7_scene]. scene_bands s ''QA_PIXEL'' \<noteq> None"
    by (simp add: qa)
  with tot [unfolded qbv, rule_format, of "\<lambda>c. [landsat7_scene]" "{0}" 2020 reference_engine]
  obtain masked where
    all2: "list_all2 (\<lambda>s m. mask_clouds s ''Landsat-7'' = Inr m) [landsat7_scene] masked" and
    run: "median_composite reference_engine (\<lambda>c. [landsat7_scene]) ''Landsat-7'' 2020 {0} =
            Inr (ee_median reference_engine masked)"
    unfolding selected by blast
  from all2 m have masked: "masked = [img']"
    by (auto simp add: list_all2_Cons1)
  have "\<exists>r. ee_median reference_engine [img'] ''SR_B3'' = Some r \<and> r 0 = None \<and>
           r 1 = Some 700"
    by (simp add: reference_engine_def reference_median_def red median_of_def
        List.map_filter_simps)
  with run masked have
    "\<exists>composite r.
      median_composite reference_engine (\<lambda>c. [landsat7_scene]) ''Landsat-7'' 2020 {0} =
        Inr composite \<and>
      composite ''SR_B3'' = Some r \<and> r 0 = None \<and> r 1 = Some 700"
    by simp
  moreover from m red have
    "\<exists>img' r. mask_clouds landsat7_scene ''Landsat-7'' = Inr img' \<and>
      scene_bands img' ''SR_B3'' = Some r \<and> r 0 = None \<and> r 1 = Some 700"
    by simp
  ultimately show ?thesis using mem by blast
qed

section \<open>The scenes of a year\<close>

text \<open>
  C1. The date filter is given \<open>'{year}-12-31'\<close> as its end, and the end of \<open>filterDate\<close>
  is exclusive. A Landsat-8 scene acquired at 10:00 on 31 December 2020 intersects the
  region and falls within the inclusive range from 1 January to 31 December 2020, and
  the compositor for 2020 selects nothing: the scene is not in the composite. The same
  scene acquired a day earlier is selected.
\<close>

theorem december31_scene_dropped:
  "footprint landsat8_december31_scene \<inter> {0} \<noteq> {} \<and>
   acquired_between 2020 (1, 1) (12, 31) (time_start landsat8_december31_scene) \<and>
   get_filtered_images (\<lambda>c. [landsat8_december31_scene]) ''Landsat-8'' 2020 {0} = Inr [] \<and>
   (\<exists>img. get_filtered_images (\<lambda>c. [landsat8_december30_scene]) ''Landsat-8'' 2020 {0} =
            Inr [img] \<and>
          time_start img = (2020, 12, 30, 36000000))"
  by (simp add: get_filtered_images_def getitem_landsat8 filterDate_def filterBounds_def
      date_string_def acquired_between_def landsat8_december31_scene_def
      landsat8_december30_scene_def mask_clouds_def getfield_def select_def updateMask_def)

section \<open>The index evaluator and the roles\<close>

lemma expression_pixel_value:
  assumes "\<And>x. val x = map_option (\<lambda>r. r p) (env x)"
  shows "spec_pixel_value eng val e =
           (case expression eng e env of Inl err \<Rightarrow> None | Inr r \<Rightarrow> Some (r p))"
  by (induction e) (simp_all add: assms pointwise_def both_def split: option.splits sum.splits)

lemma registered_formula_evaluates:
  "getitem indexes index_name = Inr formula \<Longrightarrow>
   \<exists>r. expression eng formula
          [''RED'' \<mapsto> red, ''BLUE'' \<mapsto> blue, ''GREEN'' \<mapsto> green, ''NIR'' \<mapsto> nir,
           ''RED_EDGE'' \<mapsto> red_edge, ''L'' \<mapsto> l] = Inr r"
  by (auto simp add: getitem_def indexes_def pointwise_def split: if_splits)

lemma spec_role_binding_env:
  assumes len: "length (bands d) = 5"
    and "img (bands d ! 0) = Some red" and "img (bands d ! 1) = Some blue"
    and "img (bands d ! 2) = Some green" and "img (bands d ! 3) = Some nir"
    and "img (bands d ! 4) = Some red_edge"
  shows "spec_role_binding eng d img p x =
     map_option (\<lambda>r. r p)
       ([''RED'' \<mapsto> red, ''BLUE'' \<mapsto> blue, ''GREEN'' \<mapsto> green, ''NIR'' \<mapsto> nir,
         ''RED_EDGE'' \<mapsto> red_edge, ''L'' \<mapsto> (\<lambda>p. ee_const eng 0.5)] x)"
  using assms by (simp add: spec_role_binding_def spec_role_position_def)

lemma landsat7_composite:
  "\<exists>img. median_composite reference_engine (\<lambda>c. [landsat7_bands_scene]) ''Landsat-7'' 2020 {0}
            = Inr img \<and>
         (\<exists>red nir. img ''SR_B3'' = Some red \<and> red 0 = Some 2 \<and>
                     img ''SR_B4'' = Some nir \<and> nir 0 = Some 4) \<and>
         img ''SR_B2'' \<noteq> None \<and> img ''SR_B1'' \<noteq> None"
  by (simp add: median_composite_def get_filtered_images_def getitem_def datasets_def
      filterDate_def filterBounds_def date_string_def landsat7_bands_scene_def
      mask_clouds_def getfield_def select_def updateMask_def mask_raster_def eq_value_def
      bitwiseAnd_def reference_engine_def reference_median_def median_of_def
      List.map_filter_simps)

lemma below_five: "k < 5 \<Longrightarrow> k = 0 \<or> k = 1 \<or> k = 2 \<or> k = 3 \<or> k = (4::nat)"
  by arith

lemma landsat7_ndvi_runs:
  "\<exists>ndvi stats.
     calc_index reference_engine (\<lambda>c. [landsat7_bands_scene]) ''Landsat-7'' ''NDVI'' 2020 {0}
       False = Inr (ndvi, stats)"
proof -
  from landsat7_composite obtain img red nir green blue where
    c: "median_composite reference_engine (\<lambda>c. [landsat7_bands_scene]) ''Landsat-7'' 2020 {0}
          = Inr img" and
    b: "img ''SR_B3'' = Some red" "img ''SR_B4'' = Some nir"
       "img ''SR_B2'' = Some blue" "img ''SR_B1'' = Some green"
    by blast
  show ?thesis
    by (simp add: calc_index_def getitem_landsat7 getindex_def getitem_ndvi c select_band_def
        b pointwise_def)
qed

text \<open>
  C8. For a registered dataset and a registered index, when the composite (clipped if
  asked) has the five bands of the profile, \<open>calc_index\<close> returns a raster with the single
  band named after the index, and at every location its value is the formula evaluated
  with RED bound to the band at position 0 of the profile, BLUE to position 1, GREEN to
  position 2, NIR to position 3, RED\_EDGE to position 4, and \<open>L\<close> to 0.5.
\<close>

theorem calc_index_binds_roles:
  assumes d: "getitem datasets satellite = Inr d"
    and f: "getitem indexes index_name = Inr formula"
    and c: "median_composite eng cat satellite year region = Inr median_image"
    and img: "img = (if clip then ee_clip eng median_image region else median_image)"
    and present: "\<forall>k<5. img (bands d ! k) \<noteq> None"
  shows "\<exists>r stats.
           calc_index eng cat satellite index_name year region clip =
             Inr ([index_name \<mapsto> r], stats) \<and>
           (\<forall>p. spec_pixel_value eng (spec_role_binding eng d img p) formula = Some (r p))"
proof -
  have len: "length (bands d) = 5"
    using d by (rule registered_bands)
  from present have "img (bands d ! 0) \<noteq> None" and "img (bands d ! 1) \<noteq> None"
    and "img (bands d ! 2) \<noteq> None" and "img (bands d ! 3) \<noteq> None"
    and "img (bands d ! 4) \<noteq> None"
    by simp_all
  then obtain red blue green nir red_edge where
    b0: "img (bands d ! 0) = Some red" and b1: "img (bands d ! 1) = Some blue" and
    b2: "img (bands d ! 2) = Some green" and b3: "img (bands d ! 3) = Some nir" and
    b4: "img (bands d ! 4) = Some red_edge"
    by blast
  define env where "env =
      [''RED'' \<mapsto> red, ''BLUE'' \<mapsto> blue, ''GREEN'' \<mapsto> green, ''NIR'' \<mapsto> nir,
       ''RED_EDGE'' \<mapsto> red_edge, ''L'' \<mapsto> (\<lambda>p. ee_const eng 0.5)]"
  from registered_formula_evaluates [OF f] obtain r where
    r: "expression eng formula env = Inr r"
    unfolding env_def by blast
  have run: "calc_index eng cat satellite index_name year region clip =
      Inr ([index_name \<mapsto> r],
           [(index_name @ ''_mean'', ee_mean eng r region),
            (index_name @ ''_min'', ee_min eng r region),
            (index_name @ ''_max'', ee_max eng r region),
            (index_name @ ''_stdDev'', ee_stdDev eng r region)])"
    using b0 b1 b2 b3 b4 r [unfolded env_def]
    by (simp add: calc_index_def d f c getindex_def len select_band_def img [symmetric]
        rename_def)
  have bind: "spec_role_binding eng d img p x = map_option (\<lambda>r. r p) (env x)" for p x
    unfolding env_def by (rule spec_role_binding_env [OF len b0 b1 b2 b3 b4])
  have px: "spec_pixel_value eng (spec_role_binding eng d img p) formula = Some (r p)" for p
  proof -
    have "spec_pixel_value eng (spec_role_binding eng d img p) formula =
        (case expression eng formula env of Inl err \<Rightarrow> None | Inr r \<Rightarrow> Some (r p))"
      by (rule expression_pixel_value) (rule bind)
    then show ?thesis by (simp only: r sum.case)
  qed
  from run px show ?thesis by blast
qed


theorem calc_index_binds_roles_witness:
  "\<exists>r stats.
     calc_index reference_engine (\<lambda>c. [landsat7_bands_scene]) ''Landsat-7'' ''NDVI'' 2020 {0}
       False = Inr ([''NDVI'' \<mapsto> r], stats) \<and>
     r 0 = Some (1 / 3)"
proof -
  from landsat7_composite obtain img red nir where
    c: "median_composite reference_engine (\<lambda>c. [landsat7_bands_scene]) ''Landsat-7'' 2020 {0}
          = Inr img" and
    red: "img ''SR_B3'' = Some red" "red 0 = Some 2" and
    nir: "img ''SR_B4'' = Some nir" "nir 0 = Some 4" and
    rest: "img ''SR_B2'' \<noteq> None" "img ''SR_B1'' \<noteq> None"
    by blast
  let ?d = "\<lparr>collection = ''LANDSAT/LE07/C02/T1_L2'', cloud_mask_band = Some ''QA_PIXEL'',
          cloud_mask_value = Some 58,
          bands = [''SR_B3'', ''SR_B2'', ''SR_B1'', ''SR_B4'', ''SR_B3''],
          year_range = [2000, 2023]\<rparr>"
  have present: "\<forall>k<5. img (bands ?d ! k) \<noteq> None"
    using red nir rest by (auto dest!: below_five)
  have img: "img = (if False then ee_clip reference_engine img {0} else img)"
    by simp
  from calc_index_binds_roles [OF getitem_landsat7 getitem_ndvi c img present]
  obtain r stats where
    run: "calc_index reference_engine (\<lambda>c. [landsat7_bands_scene]) ''Landsat-7'' ''NDVI''
            2020 {0} False = Inr ([''NDVI'' \<mapsto> r], stats)" and
    px: "\<forall>p. spec_pixel_value reference_engine (spec_role_binding reference_engine ?d img p)
               (Div (Sub (Var ''NIR'') (Var ''RED'')) (Add (Var ''NIR'') (Var ''RED''))) =
             Some (r p)"
    by blast
  from px [rule_format, of 0] red nir have "r 0 = Some (1 / 3)"
    by (simp add: spec_role_binding_def spec_role_position_def reference_engine_def both_def)
  with run show ?thesis by blast
qed


section \<open>NDRE without a red-edge band\<close>

lemma ndre_as_ndvi:
  assumes d: "getitem datasets satellite = Inr d"
    and same: "bands d ! 4 = bands d ! 0"
  shows "case calc_index eng cat satellite ''NDVI'' year region clip of
           Inl e \<Rightarrow> calc_index eng cat satellite ''NDRE'' year region clip = Inl e
         | Inr (ndvi, ndvi_stats) \<Rightarrow>
             (\<exists>ndre ndre_stats.
                calc_index eng cat satellite ''NDRE'' year region clip =
                  Inr (ndre, ndre_stats) \<and>
                ndre ''NDRE'' = ndvi ''NDVI'' \<and>
                getitem ndre_stats ''NDRE_mean'' = getitem ndvi_stats ''NDVI_mean'' \<and>
                getitem ndre_stats ''NDRE_min'' = getitem ndvi_stats ''NDVI_min'' \<and>
                getitem ndre_stats ''NDRE_max'' = getitem ndvi_stats ''NDVI_max'' \<and>
                getitem ndre_stats ''NDRE_stdDev'' = getitem ndvi_stats ''NDVI_stdDev'')"
proof -
  have len: "length (bands d) = 5"
    using d by (rule registered_bands)
  show ?thesis
    using same
    by (auto simp add: calc_index_def d getindex_def len getitem_ndvi getitem_ndre
        pointwise_def rename_def getitem_Cons Let_def split: sum.splits)
qed

text \<open>
  C10. For Landsat-5, Landsat-7, Landsat-8 and MODIS the band at position 4 of the profile
  is the band at position 0. So NDRE is computed from the same two bands as NDVI: when
  the evaluation of NDVI fails, that of NDRE fails alike, and otherwise the raster of
  NDRE (band \<open>NDRE\<close>) is the raster of NDVI (band \<open>NDVI\<close>) and the four statistics are the
  same, under the keys of each index.
\<close>

theorem ndre_repeats_ndvi:
  assumes "satellite \<in> {''Landsat-5'', ''Landsat-7'', ''Landsat-8'', ''MODIS''}"
  shows "\<exists>d. getitem datasets satellite = Inr d \<and> bands d ! 4 = bands d ! 0 \<and>
     (case calc_index eng cat satellite ''NDVI'' year region clip of
        Inl e \<Rightarrow> calc_index eng cat satellite ''NDRE'' year region clip = Inl e
      | Inr (ndvi, ndvi_stats) \<Rightarrow>
          (\<exists>ndre ndre_stats.
             calc_index eng cat satellite ''NDRE'' year region clip = Inr (ndre, ndre_stats) \<and>
             ndre ''NDRE'' = ndvi ''NDVI'' \<and>
             getitem ndre_stats ''NDRE_mean'' = getitem ndvi_stats ''NDVI_mean'' \<and>
             getitem ndre_stats ''NDRE_min'' = getitem ndvi_stats ''NDVI_min'' \<and>
             getitem ndre_stats ''NDRE_max'' = getitem ndvi_stats ''NDVI_max'' \<and>
             getitem ndre_stats ''NDRE_stdDev'' = getitem ndvi_stats ''NDVI_stdDev''))"
proof -
  from red_edge_repeats_red [OF assms] obtain d where
    d: "getitem datasets satellite = Inr d" and same: "bands d ! 4 = bands d ! 0"
    by blast
  from d same ndre_as_ndvi [OF d same, of eng cat year region clip]
  show ?thesis by blast
qed

theorem ndre_repeats_ndvi_witness:
  "''Landsat-7'' \<in> {''Landsat-5'', ''Landsat-7'', ''Landsat-8'', ''MODIS''} \<and>
   (\<exists>ndvi ndvi_stats ndre ndre_stats.
      calc_index reference_engine (\<lambda>c. [landsat7_bands_scene]) ''Landsat-7'' ''NDVI'' 2020 {0}
        False = Inr (ndvi, ndvi_stats) \<and>
      calc_index reference_engine (\<lambda>c. [landsat7_bands_scene]) ''Landsat-7'' ''NDRE'' 2020 {0}
        False = Inr (ndre, ndre_stats) \<and>
      ndre ''NDRE'' = ndvi ''NDVI'' \<and>
      getitem ndre_stats ''NDRE_mean'' = getitem ndvi_stats ''NDVI_mean'')"
proof -
  have mem: "''Landsat-7'' \<in> {''Landsat-5'', ''Landsat-7'', ''Landsat-8'', ''MODIS''}"
    by simp
  from landsat7_ndvi_runs obtain ndvi ndvi_stats where
    run: "calc_index reference_engine (\<lambda>c. [landsat7_bands_scene]) ''Landsat-7'' ''NDVI''
            2020 {0} False = Inr (ndvi, ndvi_stats)"
    by blast
  from ndre_repeats_ndvi [OF mem, of reference_engine "\<lambda>c. [landsat7_bands_scene]" 2020 "{0}"
      False]
  have "\<exists>ndre ndre_stats.
      calc_index reference_engine (\<lambda>c. [landsat7_bands_scene]) ''Landsat-7'' ''NDRE'' 2020 {0}
        False = Inr (ndre, ndre_stats) \<and>
      ndre ''NDRE'' = ndvi ''NDVI'' \<and>
      getitem ndre_stats ''NDRE_mean'' = getitem ndvi_stats ''NDVI_mean''"
    by (auto simp add: run)
  with mem run show ?thesis by blast
qed

section \<open>The yearly series\<close>

lemma record_stats_appends:
  assumes "distinct fs"
    and "\<forall>data\<in>set fs. dict data \<noteq> None"
    and "\<forall>data\<in>set fs. getitem stats (index_name @ ''_'' @ lower data) = Inr (val data)"
  shows "record_stats index_name stats fs dict =
           Inr (\<lambda>k. if k \<in> set fs then map_option (\<lambda>col. col @ [val k]) (dict k) else dict k)"
  using assms
proof (induction fs arbitrary: dict)
  case Nil
  then show ?case by simp
next
  case (Cons data rest)
  from Cons.prems obtain col where col: "dict data = Some col"
    by auto
  have "record_stats index_name stats rest (dict(data \<mapsto> col @ [val data])) =
      Inr (\<lambda>k. if k \<in> set rest
                then map_option (\<lambda>c. c @ [val k]) ((dict(data \<mapsto> col @ [val data])) k)
                else (dict(data \<mapsto> col @ [val data])) k)"
    using Cons.prems by (intro Cons.IH) auto
  moreover have "(\<lambda>k. if k \<in> set rest
                then map_option (\<lambda>c. c @ [val k]) ((dict(data \<mapsto> col @ [val data])) k)
                else (dict(data \<mapsto> col @ [val data])) k) =
      (\<lambda>k. if k \<in> set (data # rest) then map_option (\<lambda>c. c @ [val k]) (dict k) else dict k)"
    using Cons.prems col by (auto simp add: fun_eq_iff)
  ultimately show ?case
    using Cons.prems col by simp
qed

lemma collect_years_appends:
  assumes "distinct graph_data"
    and "\<forall>data\<in>set graph_data. dict data \<noteq> None"
    and "\<forall>year\<in>set years. \<exists>index_image stats.
           calc satellite index_name year region False = Inr (index_image, stats) \<and>
           (\<forall>data\<in>set graph_data.
              getitem stats (index_name @ ''_'' @ lower data) = Inr (value_of year data))"
  shows "collect_years calc satellite index_name region graph_data years dict =
           (Inr (\<lambda>k. if k \<in> set graph_data
                      then map_option (\<lambda>col. col @ map (\<lambda>year. value_of year k) years) (dict k)
                      else dict k),
            map (\<lambda>year. (satellite, index_name, year, region, False)) years)"
  using assms
proof (induction years arbitrary: dict)
  case Nil
  have "(\<lambda>k. if k \<in> set graph_data
             then map_option (\<lambda>col. col @ map (\<lambda>year. value_of year k) []) (dict k)
             else dict k) = dict"
    by (auto simp add: fun_eq_iff option.map_ident)
  then show ?case by (simp only: collect_years.simps list.map)
next
  case (Cons year rest)
  from Cons.prems obtain index_image stats where
    run: "calc satellite index_name year region False = Inr (index_image, stats)" and
    vals: "\<forall>data\<in>set graph_data.
              getitem stats (index_name @ ''_'' @ lower data) = Inr (value_of year data)"
    by auto
  let ?dict' = "\<lambda>k. if k \<in> set graph_data
                     then map_option (\<lambda>col. col @ [value_of year k]) (dict k) else dict k"
  have step: "record_stats index_name stats graph_data dict = Inr ?dict'"
    using Cons.prems(1,2) vals by (rule record_stats_appends)
  have dom': "\<forall>data\<in>set graph_data. ?dict' data \<noteq> None"
    using Cons.prems(2) by auto
  have rec: "collect_years calc satellite index_name region graph_data rest ?dict' =
      (Inr (\<lambda>k. if k \<in> set graph_data
                 then map_option (\<lambda>col. col @ map (\<lambda>year. value_of year k) rest) (?dict' k)
                 else ?dict' k),
       map (\<lambda>year. (satellite, index_name, year, region, False)) rest)"
    using Cons.prems(1) dom' Cons.prems(3) by (intro Cons.IH) auto
  have "(\<lambda>k. if k \<in> set graph_data
                 then map_option (\<lambda>col. col @ map (\<lambda>year. value_of year k) rest) (?dict' k)
                 else ?dict' k) =
      (\<lambda>k. if k \<in> set graph_data
            then map_option (\<lambda>col. col @ map (\<lambda>y. value_of y k) (year # rest)) (dict k)
            else dict k)"
    by (auto simp add: fun_eq_iff option.map_comp comp_def)
  with rec run step show ?case by simp
qed

lemma update_fresh:
  "k \<notin> fst ` set al \<Longrightarrow> AList.update k v al = al @ [(k, v)]"
  by (induction al) auto

lemma nrows_append: "df \<noteq> [] \<Longrightarrow> nrows (df @ cols) = nrows df"
  by (cases df) (auto simp add: nrows_def)

lemma assign_columns_appends:
  assumes "distinct fs"
    and "df \<noteq> []"
    and "\<forall>data\<in>set fs. data \<notin> fst ` set df"
    and "\<forall>data\<in>set fs. dict data = Some (col data) \<and> length (col data) = nrows df"
  shows "assign_columns df dict fs =
           Inr (df @ map (\<lambda>data. (data, map StatCell (col data))) fs)"
  using assms
proof (induction fs arbitrary: df)
  case Nil
  then show ?case by simp
next
  case (Cons data rest)
  let ?df' = "df @ [(data, map StatCell (col data))]"
  from Cons.prems have set: "setitem_column df data (map StatCell (col data)) = Inr ?df'"
    by (simp add: setitem_column_def update_fresh)
  have "assign_columns ?df' dict rest =
      Inr (?df' @ map (\<lambda>data. (data, map StatCell (col data))) rest)"
    using Cons.prems by (intro Cons.IH) (auto simp add: nrows_append)
  with set Cons.prems show ?case by simp
qed

text \<open>
  C6. For a start year not after the end year and a selection of distinct fields among
  Max, Mean and Min: when the index evaluator returns for each year of the range, with the
  statistics of the requested fields, \<open>plot_index_over_time\<close> returns. It calls the
  evaluator once per year, in ascending order and with \<open>clip\<close> false, and its table has the
  column of the years and one column for each requested field and no other, holding the
  year's statistic of that field (\<open>value_of year data\<close>) in the row of each year. The
  years are \<open>end_year - start_year + 1\<close> in number and strictly ascending.
\<close>

theorem plot_index_over_time_series:
  assumes range: "start_year \<le> end_year"
    and requested: "distinct graph_data" "set graph_data \<subseteq> {''Max'', ''Mean'', ''Min''}"
    and evaluates: "\<forall>year\<in>{start_year..end_year}. \<exists>index_image stats.
           calc satellite index_name year region False = Inr (index_image, stats) \<and>
           (\<forall>data\<in>set graph_data.
              getitem stats (index_name @ ''_'' @ lower data) =
                Inr (value_of year data :: 's))"
  shows "plot_index_over_time calc satellite index_name start_year end_year region graph_data =
           (Inr ((''Year'', map YearCell [start_year..end_year]) #
                 map (\<lambda>data. (data, map (\<lambda>year. StatCell (value_of year data))
                                       [start_year..end_year])) graph_data),
            map (\<lambda>year. (satellite, index_name, year, region, False))
              [start_year..end_year]) \<and>
         length [start_year..end_year] = nat (end_year - start_year + 1) \<and>
         sorted_wrt (<) [start_year..end_year]"
proof -
  let ?years = "[start_year..end_year]"
  let ?dict = "map_of (map (\<lambda>data. (data, [])) graph_data) :: string \<rightharpoonup> 's list"
  have dict: "?dict k = (if k \<in> set graph_data then Some [] else None)" for k
    by (induction graph_data) auto
  have collected: "collect_years calc satellite index_name region graph_data ?years ?dict =
      (Inr (\<lambda>k. if k \<in> set graph_data
                 then map_option (\<lambda>col. col @ map (\<lambda>year. value_of year k) ?years) (?dict k)
                 else ?dict k),
       map (\<lambda>year. (satellite, index_name, year, region, False)) ?years)"
    using requested(1) evaluates by (intro collect_years_appends) (auto simp add: dict)
  let ?dict' = "\<lambda>k. if k \<in> set graph_data
                 then map_option (\<lambda>col. col @ map (\<lambda>year. value_of year k) ?years) (?dict k)
                 else ?dict k"
  have fresh: "''Year'' \<notin> set graph_data"
    using requested(2) by auto
  have assigned: "assign_columns [(''Year'', map YearCell ?years)] ?dict' graph_data =
      Inr ([(''Year'', map YearCell ?years)] @
           map (\<lambda>data. (data, map StatCell (map (\<lambda>year. value_of year data) ?years)))
             graph_data)"
    using requested(1) fresh
    by (intro assign_columns_appends) (auto simp add: dict nrows_def)
  have "plot_index_over_time calc satellite index_name start_year end_year region graph_data =
      (Inr ((''Year'', map YearCell ?years) #
            map (\<lambda>data. (data, map (\<lambda>year. StatCell (value_of year data)) ?years))
              graph_data),
       map (\<lambda>year. (satellite, index_name, year, region, False)) ?years)"
    unfolding plot_index_over_time_def Let_def collected
    by (simp add: assigned comp_def)
  then show ?thesis by simp
qed

theorem plot_index_over_time_series_witness:
  "(2019::int) \<le> 2020 \<and>
   plot_index_over_time yearly_calc ''Landsat-8'' ''NDVI'' 2019 2020 {(30, 50)}
       [''Max'', ''Mean''] =
     (Inr [(''Year'', [YearCell 2019, YearCell 2020]),
           (''Max'', [StatCell 1, StatCell 1]),
           (''Mean'', [StatCell 2019, StatCell 2020])],
      [(''Landsat-8'', ''NDVI'', 2019, {(30, 50)}, False),
       (''Landsat-8'', ''NDVI'', 2020, {(30, 50)}, False)])"
proof -
  have range: "(2019::int) \<le> 2020"
    by simp
  have requested: "distinct [''Max'', ''Mean'']"
    "set [''Max'', ''Mean''] \<subseteq> {''Max'', ''Mean'', ''Min''}"
    by simp_all
  have evaluates: "\<forall>year\<in>{2019..2020}. \<exists>index_image stats.
      yearly_calc ''Landsat-8'' ''NDVI'' year {(30, 50)} False = Inr (index_image, stats) \<and>
      (\<forall>data\<in>set [''Max'', ''Mean''].
         getitem stats (''NDVI'' @ ''_'' @ lower data) =
           Inr (if data = ''Max'' then 1 else real_of_int year))"
    by (simp add: yearly_calc_def getitem_Cons lower_def lower_char_def)
  have years: "[2019..2020] = [2019, 2020 :: int]"
    by (simp add: upto.simps)
  from plot_index_over_time_series
    [where calc = yearly_calc and
       value_of = "\<lambda>year data. if data = ''Max'' then 1 else real_of_int year",
     OF range requested evaluates]
  show ?thesis
    by (simp add: years)
qed

section \<open>Division by zero in the formula\<close>







end
